theory Spec2Isabelle
  imports Complex_Main
begin

section \<open>JavaScript strings and error objects\<close>

text \<open>
  A JavaScript string is modelled as a \<^typ>\<open>string\<close>, read as its sequence of code units;
  only code units below \<open>0x100\<close> occur. \<open>String.prototype.trim\<close> removes white space and
  line terminators from both ends; below \<open>0x100\<close> these are TAB, LF, VT, FF, CR, SPACE and
  NBSP.
\<close>

definition is_js_space :: "char \<Rightarrow> bool" where
  "is_js_space c =
     (c = CHR 0x09 \<or> c = CHR 0x0A \<or> c = CHR 0x0B \<or> c = CHR 0x0C \<or> c = CHR 0x0D
      \<or> c = CHR 0x20 \<or> c = CHR 0xA0)"

definition trim :: "string \<Rightarrow> string" where
  "trim s = rev (dropWhile is_js_space (rev (dropWhile is_js_space s)))"

fun starts_with :: "string \<Rightarrow> string \<Rightarrow> bool" where
  "starts_with [] s = True"
| "starts_with (p # ps) [] = False"
| "starts_with (p # ps) (c # cs) = (p = c \<and> starts_with ps cs)"

text \<open>
  The error objects of the repository: the built-in \<open>Error\<close> (thrown by \<open>AIService\<close>), the
  runtime's \<open>TypeError\<close> (a property read on \<open>null\<close>), the classes of
  \<open>integrations/wordpress/errors.ts\<close>, and the error object of the HTTP library that the
  API client's interceptor can re-throw unchanged. The constructor of the datatype is the
  class of the object; the arguments are its fields (\<open>message\<close>, then \<open>command\<close> for an
  \<open>SSHError\<close>, or \<open>statusCode\<close> and \<open>code\<close> for a \<open>WPError\<close> and its subclasses).
\<close>

datatype js_error =
    Error string
  | TypeError string
  | SSHError string "string option"
  | WPError string "int option" "string option"
  | WPAuthError string "int option" "string option"
  | WPNetworkError string "int option" "string option"
  | AxiosError string

fun message :: "js_error \<Rightarrow> string" where
  "message (Error m) = m"
| "message (TypeError m) = m"
| "message (SSHError m c) = m"
| "message (WPError m s c) = m"
| "message (WPAuthError m s c) = m"
| "message (WPNetworkError m s c) = m"
| "message (AxiosError m) = m"

section \<open>Generation Client (\<open>ai/AIService.ts\<close>)\<close>

subsection \<open>Fence extraction\<close>

text \<open>
  \<open>parseJSONResponse\<close> matches the response against \<open>/```json\n([\s\S]*?)\n```/\<close> and, when
  that fails, against \<open>/```\n([\s\S]*?)\n```/\<close>. The matcher tries every start position from
  the left; at a start where the opening fence matches, the lazy group \<open>[\s\S]*?\<close> grows one
  code unit at a time until the closing \<open>\n```\<close> follows, and when the end of the text is
  reached without a closing fence the matcher moves on to the next start position.
\<close>

definition fence_json :: string where
  "fence_json = ''```json\<newline>''"

definition fence_plain :: string where
  "fence_plain = ''```\<newline>''"

definition fence_close :: string where
  "fence_close = ''\<newline>```''"

fun lazy_group :: "string \<Rightarrow> string option" where
  "lazy_group [] = None"
| "lazy_group (c # cs) =
     (if starts_with fence_close (c # cs) then Some []
      else map_option ((#) c) (lazy_group cs))"

fun match_fence :: "string \<Rightarrow> string \<Rightarrow> string option" where
  "match_fence opener [] = None"
| "match_fence opener (c # cs) =
     (if starts_with opener (c # cs)
      then (case lazy_group (drop (length opener) (c # cs)) of
              Some g \<Rightarrow> Some g
            | None \<Rightarrow> match_fence opener cs)
      else match_fence opener cs)"

text \<open>\<open>jsonMatch ? jsonMatch[1] : response\<close>, with \<open>jsonMatch\<close> the first match or the second.\<close>

definition jsonString :: "string \<Rightarrow> string" where
  "jsonString response =
     (case match_fence fence_json response of
        Some g \<Rightarrow> g
      | None \<Rightarrow> (case match_fence fence_plain response of
                    Some g \<Rightarrow> g
                  | None \<Rightarrow> response))"

subsection \<open>\<open>parseJSONResponse\<close>\<close>

text \<open>
  \<open>JSON.parse\<close> belongs to the runtime, not to the repository: it is a parameter, a partial
  function from texts to values of some type \<^typ>\<open>'j\<close>, \<^term>\<open>None\<close> where it throws. Whatever
  is thrown inside the \<open>try\<close> block is replaced by \<open>new Error('Invalid JSON response from AI')\<close>.
\<close>

definition malformed_response :: js_error where
  "malformed_response = Error ''Invalid JSON response from AI''"

definition parseJSONResponse :: "(string \<Rightarrow> 'j option) \<Rightarrow> string \<Rightarrow> js_error + 'j" where
  "parseJSONResponse JSON_parse response =
     (case JSON_parse (trim (jsonString response)) of
        Some v \<Rightarrow> Inr v
      | None \<Rightarrow> Inl malformed_response)"

text \<open>
  The specification's words for the two notions above: a fenced block of a response is a text
  that stands between an opening fence and the closing fence; a parse either yields the payload
  or is the malformed-response fault.
\<close>

definition has_block :: "string \<Rightarrow> string \<Rightarrow> string \<Rightarrow> bool" where
  "has_block opener raw g \<longleftrightarrow> (\<exists>before after. raw = before @ opener @ g @ fence_close @ after)"

definition parsed_or_malformed :: "'j option \<Rightarrow> js_error + 'j" where
  "parsed_or_malformed r = (case r of Some v \<Rightarrow> Inr v | None \<Rightarrow> Inl malformed_response)"

text \<open>
  A property of the JSON grammar, stated for a parser: a backtick can only stand inside a
  string literal and a line feed cannot, so a text that contains an opening fence is not a
  JSON text.
\<close>

definition rejects_fences :: "(string \<Rightarrow> 'j option) \<Rightarrow> bool" where
  "rejects_fences jp \<longleftrightarrow>
     (\<forall>a b. jp (a @ fence_json @ b) = None \<and> jp (a @ fence_plain @ b) = None)"

subsection \<open>\<open>generateCompletion\<close>\<close>

text \<open>
  A prompt is the template and the variables handed to \<open>substituteVariables\<close>; the
  substitution is a total function of them and its text is read by the generator only.
\<close>

datatype prompt =
    PLANNING_AGENT_PROMPT string string string
  | DESIGN_AGENT_PROMPT string string string
  | CONTENT_AGENT_PROMPT string string "(string \<times> string) list"

text \<open>
  \<open>provider\<close> is the branch that the configuration selects inside \<open>generateCompletion\<close>
  (\<open>generateWithAnthropic\<close>, or \<open>mockResponse\<close> when no provider is configured): the text it
  returns, or the error it throws. \<open>JSON_parse\<close> is the runtime's \<open>JSON.parse\<close>.
\<close>

record 'j AIService =
  provider :: "prompt \<Rightarrow> string \<Rightarrow> js_error + string"
  JSON_parse :: "string \<Rightarrow> 'j option"

definition generateCompletion :: "'j AIService \<Rightarrow> prompt \<Rightarrow> string \<Rightarrow> js_error + string" where
  "generateCompletion svc p systemPrompt =
     (case provider svc p systemPrompt of
        Inr text \<Rightarrow> Inr text
      | Inl error \<Rightarrow> Inl (Error (''AI generation failed: '' @ message error)))"

section \<open>Agents (\<open>ai/types.ts\<close>, \<open>ai/agents\<close>)\<close>

record AgentInput =
  businessName :: string
  businessType :: string
  description :: string
  industry :: "string option"
  targetAudience :: "string option"

record 'd AgentOutput =
  success :: bool
  confidence :: real
  data :: "'d option"
  assumptions :: "string list option"
  errors :: "string list option"

record PageContent =
  title :: string
  slug :: string
  content :: string
  seoTitle :: string
  seoDescription :: string
  focusKeyword :: string

record PostContent =
  title :: string
  slug :: string
  content :: string
  excerpt :: string
  categories :: "string list"
  tags :: "string list"

record ContentOutput =
  pages :: "PageContent list"
  posts :: "PostContent list"

record PageStructure =
  title :: string
  slug :: string
  template :: string
  sections :: "string list"
  priority :: real

datatype NavigationItem = NavigationItem string string "NavigationItem list option"

record SiteArchitecture =
  pages :: "PageStructure list"
  features :: "string list"
  navigation :: "NavigationItem list"
  siteMap :: "string list"

record ColorPalette =
  primary :: string
  secondary :: string
  accent :: string
  background :: string
  text_color :: string

record Typography =
  headingFont :: string
  bodyFont :: string

datatype Style = modern | classic | bold | minimal

record DesignConfig =
  theme :: string
  colorPalette :: ColorPalette
  typography :: Typography
  style :: Style

text \<open>
  \<open>parseJSONResponse<T>\<close> hands the parsed value to the agent at the type \<open>T\<close> that the agent
  names. The reader gives the properties that the agents read off a parsed value, at their
  declared types: \<open>data.confidence\<close>; the four properties of \<open>SiteArchitecture\<close>;
  \<open>data.assumptions\<close>; the four properties of \<open>DesignConfig\<close>; \<open>data.pages\<close> at the type
  of \<open>ContentOutput\<close>; and \<open>data.posts\<close>, \<^term>\<open>None\<close> when it is absent. The type
  argument is not checked at run time: a parsed value that is not an object of the declared
  type (\<open>null\<close>, or an object without a numeric \<open>confidence\<close>) is outside this reading.
\<close>

record 'j reader =
  read_confidence :: "'j \<Rightarrow> real"
  read_architecture :: "'j \<Rightarrow> SiteArchitecture"
  read_assumptions :: "'j \<Rightarrow> string list option"
  read_design :: "'j \<Rightarrow> DesignConfig"
  read_pages :: "'j \<Rightarrow> PageContent list"
  read_posts :: "'j \<Rightarrow> PostContent list option"

text \<open>The \<open>catch\<close> block shared by the three agents.\<close>

definition agent_failed :: "js_error \<Rightarrow> 'd AgentOutput" where
  "agent_failed error =
     \<lparr>success = False, confidence = 0, data = None, assumptions = None,
      errors = Some [message error]\<rparr>"

definition PlanningAgent_execute ::
  "'j AIService \<Rightarrow> 'j reader \<Rightarrow> AgentInput \<Rightarrow> SiteArchitecture AgentOutput" where
  "PlanningAgent_execute aiService rd input =
     (case generateCompletion aiService
             (PLANNING_AGENT_PROMPT (businessName input) (businessType input) (description input))
             ''You are a website planning expert. Always respond with valid JSON only.'' of
        Inl error \<Rightarrow> agent_failed error
      | Inr response \<Rightarrow>
          (case parseJSONResponse (JSON_parse aiService) response of
             Inl error \<Rightarrow> agent_failed error
           | Inr parsed \<Rightarrow>
               \<lparr>success = True, confidence = read_confidence rd parsed,
                data = Some (read_architecture rd parsed),
                assumptions = read_assumptions rd parsed, errors = None\<rparr>))"

definition DesignAgent_execute ::
  "'j AIService \<Rightarrow> 'j reader \<Rightarrow> AgentInput \<Rightarrow> DesignConfig AgentOutput" where
  "DesignAgent_execute aiService rd input =
     (case generateCompletion aiService
             (DESIGN_AGENT_PROMPT (businessName input) (businessType input)
                (case industry input of
                   None \<Rightarrow> businessType input
                 | Some i \<Rightarrow> if i = [] then businessType input else i))
             ''You are a web design expert. Always respond with valid JSON only.'' of
        Inl error \<Rightarrow> agent_failed error
      | Inr response \<Rightarrow>
          (case parseJSONResponse (JSON_parse aiService) response of
             Inl error \<Rightarrow> agent_failed error
           | Inr parsed \<Rightarrow>
               \<lparr>success = True, confidence = read_confidence rd parsed,
                data = Some (read_design rd parsed), assumptions = None, errors = None\<rparr>))"

definition ContentAgent_execute ::
  "'j AIService \<Rightarrow> 'j reader \<Rightarrow> AgentInput \<Rightarrow> PageStructure list \<Rightarrow> ContentOutput AgentOutput"
  where
  "ContentAgent_execute aiService rd input ps =
     (case generateCompletion aiService
             (CONTENT_AGENT_PROMPT (businessName input) (businessType input)
                (map (\<lambda>p. (PageStructure.title p, PageStructure.slug p)) ps))
             ''You are an expert content writer. Always respond with valid JSON only.'' of
        Inl error \<Rightarrow> agent_failed error
      | Inr response \<Rightarrow>
          (case parseJSONResponse (JSON_parse aiService) response of
             Inl error \<Rightarrow> agent_failed error
           | Inr parsed \<Rightarrow>
               \<lparr>success = True, confidence = read_confidence rd parsed,
                data = Some \<lparr>ContentOutput.pages = read_pages rd parsed,
                             posts = (case read_posts rd parsed of None \<Rightarrow> [] | Some xs \<Rightarrow> xs)\<rparr>,
                assumptions = None, errors = None\<rparr>))"

text \<open>The output of an agent whose generator text could not be parsed.\<close>

definition invalid_output :: "'d AgentOutput" where
  "invalid_output =
     \<lparr>success = False, confidence = 0, data = None, assumptions = None,
      errors = Some [''Invalid JSON response from AI'']\<rparr>"

section \<open>Orchestrator (\<open>ai/agents/Orchestrator.ts\<close>)\<close>

text \<open>
  The returned object. A field is \<^term>\<open>None\<close> when the object literal of the \<open>return\<close>
  statement does not write that key; \<open>null\<close> is the \<^term>\<open>None\<close> of the agent's \<open>data\<close>.
\<close>

record OrchestrationResult =
  success :: bool
  siteArchitecture :: "SiteArchitecture option option"
  content :: "ContentOutput option option"
  design :: "DesignConfig option option"
  overallConfidence :: "real option"
  errors :: "string list"

text \<open>
  What a run does besides returning: the \<open>progress\<close> events it emits and the agents it
  executes, in order. The log entries of the agents and of the Orchestrator are left out.
\<close>

datatype agent = PlanningAgent | DesignAgent | ContentAgent

datatype orchestrator_effect =
    Progress string nat string
  | Execute agent

text \<open>\<open>result.errors || [fallback]\<close>: an array, also an empty one, is truthy.\<close>

definition errors_or :: "string list option \<Rightarrow> string list \<Rightarrow> string list" where
  "errors_or es fallback = (case es of Some xs \<Rightarrow> xs | None \<Rightarrow> fallback)"

text \<open>
  The message of the \<open>TypeError\<close> that Node raises for \<open>planningResult.data.pages\<close> when
  \<open>data\<close> is \<open>null\<close>; it is caught by the \<open>catch\<close> block of \<open>orchestrate\<close>.
\<close>

definition null_pages_message :: string where
  "null_pages_message =
     ''Cannot read properties of null (reading '' @ [CHR 0x27] @ ''pages'' @ [CHR 0x27] @ '')''"

definition orchestrate ::
  "'j AIService \<Rightarrow> 'j reader \<Rightarrow> AgentInput \<Rightarrow> OrchestrationResult \<times> orchestrator_effect list"
  where
  "orchestrate aiService rd input =
     (let planningResult = PlanningAgent_execute aiService rd input;
          t1 = [Progress ''planning'' 10 ''Analyzing business and creating site architecture...'',
                Execute PlanningAgent]
      in if \<not> AgentOutput.success planningResult
         then (\<lparr>success = False, siteArchitecture = None, content = None, design = None,
                 overallConfidence = Some 0,
                 errors = errors_or (AgentOutput.errors planningResult) [''Planning failed'']\<rparr>,
               t1)
         else
           let confidences1 = [confidence planningResult];
               designResult = DesignAgent_execute aiService rd input;
               t2 = t1 @ [Progress ''design'' 30 ''Selecting theme and design system...'',
                          Execute DesignAgent];
               errors2 = (if \<not> AgentOutput.success designResult
                          then errors_or (AgentOutput.errors designResult)
                                 [''Design selection failed'']
                          else []);
               confidences2 = (if \<not> AgentOutput.success designResult then confidences1
                               else confidences1 @ [confidence designResult]);
               t3 = t2 @ [Progress ''content'' 50 ''Generating page content and SEO metadata...'']
           in case data planningResult of
                None \<Rightarrow>
                  (\<lparr>success = False, siteArchitecture = None, content = None, design = None,
                    overallConfidence = Some 0, errors = [null_pages_message]\<rparr>,
                   t3)
              | Some architecture \<Rightarrow>
                  let contentResult =
                        ContentAgent_execute aiService rd input (SiteArchitecture.pages architecture);
                      t4 = t3 @ [Execute ContentAgent];
                      errors3 = (if \<not> AgentOutput.success contentResult
                                 then errors2 @ errors_or (AgentOutput.errors contentResult)
                                                  [''Content generation failed'']
                                 else errors2);
                      confidences3 = (if \<not> AgentOutput.success contentResult then confidences2
                                      else confidences2 @ [confidence contentResult])
                  in (\<lparr>success = (errors3 = []),
                       siteArchitecture = Some (data planningResult),
                       content = Some (if AgentOutput.success contentResult
                                       then data contentResult else None),
                       design = Some (if AgentOutput.success designResult
                                      then data designResult else None),
                       overallConfidence =
                         Some (foldl (\<lambda>a b. a + b) 0 confidences3 / real (length confidences3)),
                       errors = errors3\<rparr>,
                      t4 @ [Progress ''complete'' 100 ''Site generation complete!'']))"


section \<open>Remote Command Channel (\<open>SSHClient\<close>)\<close>

text \<open>
  A promise is settled with a value, settled with an error, or never settled. A settled
  promise comes with the effects performed on the way.
\<close>

datatype 'a promise = Resolved 'a | Rejected js_error | Pending

datatype site_status = DEPLOYED | FAILED

datatype log_level = INFO | ERROR

text \<open>
  The effects of the deployment side: a \<open>progress\<close> event (step and message), a log entry
  (level, message and the error object handed to the logger), the calls on the connection, and
  the update of the status of a site record.
\<close>

datatype effect =
    Emit string string
  | Log log_level string "js_error option"
  | Connect
  | Exec string
  | Disconnect
  | DbUpdate string site_status

record SSHConfig =
  host :: string
  port :: "nat option"
  username :: string
  privateKey :: "string option"
  password :: "string option"
  path :: string

text \<open>
  What the remote side does with one invocation: the connection raises \<open>error\<close> (with a
  message), or neither \<open>ready\<close> nor \<open>error\<close> ever arrives, or \<open>exec\<close> calls back with an error,
  or it calls back with a stream, whose events are then delivered in order: chunks of standard
  output, chunks of standard error, and \<open>close\<close> with the exit code, a number as the handler
  declares it. The remote side is a function from the command text that the shell receives
  to this behaviour: a command meets the same behaviour wherever a run issues it.
\<close>

datatype stream_event = Data string | StderrData string | Close int

datatype session =
    ConnectError string
  | NeverReady
  | ExecError string
  | Stream "stream_event list"

text \<open>
  The three handlers of the stream: \<open>output += data\<close>, \<open>errorOutput += data\<close>, and \<open>close\<close>,
  which settles the promise. A stream that never closes leaves it pending.
\<close>

fun run_stream :: "stream_event list \<Rightarrow> string \<Rightarrow> string \<Rightarrow> (int \<times> string \<times> string) option" where
  "run_stream [] output errorOutput = None"
| "run_stream (Data d # events) output errorOutput = run_stream events (output @ d) errorOutput"
| "run_stream (StderrData d # events) output errorOutput =
     run_stream events output (errorOutput @ d)"
| "run_stream (Close code # events) output errorOutput = Some (code, output, errorOutput)"

text \<open>What a stream wrote to standard output and to standard error.\<close>

fun stdout_of :: "stream_event list \<Rightarrow> string" where
  "stdout_of [] = []"
| "stdout_of (Data d # events) = d @ stdout_of events"
| "stdout_of (e # events) = stdout_of events"

fun stderr_of :: "stream_event list \<Rightarrow> string" where
  "stderr_of [] = []"
| "stderr_of (StderrData d # events) = d @ stderr_of events"
| "stderr_of (e # events) = stderr_of events"

fun is_Close :: "stream_event \<Rightarrow> bool" where
  "is_Close (Close c) = True"
| "is_Close e = False"

text \<open>The decimal text of an exit code inside the template literal.\<close>

definition digit_char :: "nat \<Rightarrow> char" where
  "digit_char d = char_of (48 + d)"

function decimal_digits :: "nat \<Rightarrow> string" where
  "decimal_digits n =
     (if 10 \<le> n then decimal_digits (n div 10) @ [digit_char (n mod 10)] else [digit_char n])"
  by pat_completeness auto
termination
  by (relation "measure (\<lambda>n. n)") auto

definition number_text :: "int \<Rightarrow> string" where
  "number_text i = (if 0 \<le> i then decimal_digits (nat i) else CHR ''-'' # decimal_digits (nat (- i)))"

definition fullCommand :: "SSHConfig \<Rightarrow> string \<Rightarrow> string" where
  "fullCommand config command = ''cd '' @ path config @ '' && '' @ command"

definition executeCommand ::
  "SSHConfig \<Rightarrow> (string \<Rightarrow> session) \<Rightarrow> string \<Rightarrow> string promise \<times> effect list" where
  "executeCommand config remote command =
     (case remote (fullCommand config command) of
        ConnectError m \<Rightarrow> (Rejected (SSHError m (Some command)), [Connect, Disconnect])
      | NeverReady \<Rightarrow> (Pending, [Connect])
      | ExecError m \<Rightarrow>
          (Rejected (SSHError m (Some command)),
           [Connect, Log INFO (''Executing SSH: '' @ fullCommand config command) None,
            Exec (fullCommand config command), Disconnect])
      | Stream events \<Rightarrow>
          (case run_stream events [] [] of
             None \<Rightarrow>
               (Pending,
                [Connect, Log INFO (''Executing SSH: '' @ fullCommand config command) None,
                 Exec (fullCommand config command)])
           | Some (code, output, errorOutput) \<Rightarrow>
               (if code \<noteq> 0
                then Rejected (SSHError (''Command failed with code '' @ number_text code
                                          @ '': '' @ errorOutput) (Some command))
                else Resolved (trim output),
                [Connect, Log INFO (''Executing SSH: '' @ fullCommand config command) None,
                 Exec (fullCommand config command), Disconnect])))"

text \<open>The WP-CLI wrappers: each builds one command text and hands it to \<open>executeCommand\<close>.\<close>

definition core_command :: "string \<Rightarrow> string \<Rightarrow> string \<Rightarrow> string \<Rightarrow> string \<Rightarrow> string" where
  "core_command siteUrl siteTitle adminUser adminPass adminEmail =
     ''wp core install --url='' @ [CHR 0x22] @ siteUrl @ [CHR 0x22]
     @ '' --title='' @ [CHR 0x22] @ siteTitle @ [CHR 0x22]
     @ '' --admin_user='' @ [CHR 0x22] @ adminUser @ [CHR 0x22]
     @ '' --admin_password='' @ [CHR 0x22] @ adminPass @ [CHR 0x22]
     @ '' --admin_email='' @ [CHR 0x22] @ adminEmail @ [CHR 0x22]"

definition wpCoreInstall ::
  "SSHConfig \<Rightarrow> (string \<Rightarrow> session) \<Rightarrow> string \<Rightarrow> string \<Rightarrow> string \<Rightarrow> string \<Rightarrow> string
     \<Rightarrow> string promise \<times> effect list" where
  "wpCoreInstall config remote siteUrl siteTitle adminUser adminPass adminEmail =
     executeCommand config remote (core_command siteUrl siteTitle adminUser adminPass adminEmail)"

definition plugin_command :: "string \<Rightarrow> bool \<Rightarrow> string" where
  "plugin_command plugin activate =
     ''wp plugin install '' @ plugin @ '' '' @ (if activate then ''--activate'' else [])"

definition wpPluginInstall ::
  "SSHConfig \<Rightarrow> (string \<Rightarrow> session) \<Rightarrow> string \<Rightarrow> bool \<Rightarrow> string promise \<times> effect list" where
  "wpPluginInstall config remote plugin activate =
     executeCommand config remote (plugin_command plugin activate)"

definition theme_command :: "string \<Rightarrow> bool \<Rightarrow> string" where
  "theme_command themeSlug activate =
     ''wp theme install '' @ themeSlug @ '' '' @ (if activate then ''--activate'' else [])"

definition wpThemeInstall ::
  "SSHConfig \<Rightarrow> (string \<Rightarrow> session) \<Rightarrow> string \<Rightarrow> bool \<Rightarrow> string promise \<times> effect list" where
  "wpThemeInstall config remote themeSlug activate =
     executeCommand config remote (theme_command themeSlug activate)"

section \<open>Deployment Engine (\<open>WordPressService.deploySite\<close>)\<close>

text \<open>
  \<open>deploymentData\<close> is untyped in the source; these are the properties that \<open>deploySite\<close>
  reads. A plugin is the text handed to \<open>wpPluginInstall\<close>.
\<close>

record DeploymentData =
  url :: string
  title :: string
  adminUser :: string
  adminPass :: string
  adminEmail :: string
  theme :: "string option"
  plugins :: "string list option"

text \<open>
  \<open>await first; next\<close>: the continuation runs only when the awaited promise resolves; its
  value is not used by \<open>deploySite\<close>.
\<close>

definition and_then ::
  "'a promise \<times> effect list \<Rightarrow> 'b promise \<times> effect list \<Rightarrow> 'b promise \<times> effect list" where
  "and_then first next =
     (case fst first of
        Resolved x \<Rightarrow> (fst next, snd first @ snd next)
      | Rejected e \<Rightarrow> (Rejected e, snd first)
      | Pending \<Rightarrow> (Pending, snd first))"

definition skip :: "unit promise \<times> effect list" where
  "skip = (Resolved (), [])"

text \<open>The loop \<open>for (const plugin of deploymentData.plugins)\<close>.\<close>

fun install_plugins ::
  "SSHConfig \<Rightarrow> (string \<Rightarrow> session) \<Rightarrow> string list \<Rightarrow> unit promise \<times> effect list" where
  "install_plugins config remote [] = skip"
| "install_plugins config remote (plugin # rest) =
     and_then (wpPluginInstall config remote plugin True) (install_plugins config remote rest)"

text \<open>
  The \<open>try\<close> block. The update of the site record belongs to the persistence layer and is
  taken to succeed.
\<close>

definition core_step ::
  "SSHConfig \<Rightarrow> (string \<Rightarrow> session) \<Rightarrow> DeploymentData \<Rightarrow> string promise \<times> effect list" where
  "core_step config remote deploymentData =
     and_then (Resolved (), [Emit ''core_install'' ''Installing WordPress Core...''])
       (wpCoreInstall config remote (url deploymentData) (DeploymentData.title deploymentData)
          (adminUser deploymentData) (adminPass deploymentData) (adminEmail deploymentData))"

definition theme_step ::
  "SSHConfig \<Rightarrow> (string \<Rightarrow> session) \<Rightarrow> DeploymentData \<Rightarrow> unit promise \<times> effect list" where
  "theme_step config remote deploymentData =
     (case DeploymentData.theme deploymentData of
        None \<Rightarrow> skip
      | Some t \<Rightarrow>
          if t = [] then skip
          else and_then (Resolved (), [Emit ''theme_install'' (''Installing theme: '' @ t)])
                 (and_then (wpThemeInstall config remote t True) skip))"

definition plugins_step ::
  "SSHConfig \<Rightarrow> (string \<Rightarrow> session) \<Rightarrow> DeploymentData \<Rightarrow> unit promise \<times> effect list" where
  "plugins_step config remote deploymentData =
     (case plugins deploymentData of
        None \<Rightarrow> skip
      | Some ps \<Rightarrow>
          if length ps > 0
          then and_then (Resolved (), [Emit ''plugins_install'' ''Installing plugins...''])
                 (install_plugins config remote ps)
          else skip)"

definition try_block ::
  "SSHConfig \<Rightarrow> (string \<Rightarrow> session) \<Rightarrow> string \<Rightarrow> DeploymentData \<Rightarrow> unit promise \<times> effect list"
  where
  "try_block config remote siteId deploymentData =
     and_then (core_step config remote deploymentData)
       (and_then (theme_step config remote deploymentData)
          (and_then (plugins_step config remote deploymentData)
             (Resolved (),
              [DbUpdate siteId DEPLOYED, Emit ''completed'' ''Deployment successful!'',
               Log INFO (''Deployment completed for site '' @ siteId) None])))"

definition deploySite ::
  "SSHConfig \<Rightarrow> (string \<Rightarrow> session) \<Rightarrow> string \<Rightarrow> DeploymentData \<Rightarrow> unit promise \<times> effect list"
  where
  "deploySite config remote siteId deploymentData =
     (let started = [Log INFO (''Starting deployment for site '' @ siteId) None,
                     Emit ''init'' ''Initializing deployment...''];
          body = try_block config remote siteId deploymentData
      in case fst body of
           Resolved x \<Rightarrow> (Resolved (), started @ snd body)
         | Rejected e \<Rightarrow>
             (Rejected e,
              started @ snd body
              @ [Log ERROR (''Deployment failed for site '' @ siteId) (Some e), Emit ''failed'' (message e),
                 DbUpdate siteId FAILED])
         | Pending \<Rightarrow> (Pending, started @ snd body))"

text \<open>The status that the site record holds after the effects: the last one written.\<close>

fun terminal_status :: "string \<Rightarrow> effect list \<Rightarrow> site_status option" where
  "terminal_status siteId [] = None"
| "terminal_status siteId (e # es) =
     (case terminal_status siteId es of
        Some s \<Rightarrow> Some s
      | None \<Rightarrow> (case e of DbUpdate i s \<Rightarrow> if i = siteId then Some s else None | _ \<Rightarrow> None))"

text \<open>The commands handed to the remote shell, in order.\<close>

fun executed :: "effect list \<Rightarrow> string list" where
  "executed [] = []"
| "executed (Exec c # es) = c # executed es"
| "executed (e # es) = executed es"

text \<open>The outcome of one invocation, read off the remote side's behaviour.\<close>

definition exits_with :: "session \<Rightarrow> int \<Rightarrow> bool" where
  "exits_with s code =
     (case s of
        Stream events \<Rightarrow> (case run_stream events [] [] of
                           Some (c, out, err) \<Rightarrow> c = code
                         | None \<Rightarrow> False)
      | _ \<Rightarrow> False)"


text \<open>The theme command that a deployment issues, if any.\<close>

definition theme_commands :: "DeploymentData \<Rightarrow> string list" where
  "theme_commands d =
     (case DeploymentData.theme d of
        None \<Rightarrow> []
      | Some t \<Rightarrow> if t = [] then [] else [theme_command t True])"





section \<open>Content API Client (\<open>WordPressAPIClient\<close>)\<close>

text \<open>
  The error that the HTTP library hands to the response interceptor: \<open>error.response\<close> (with
  \<open>status\<close>, \<open>data?.message\<close> and \<open>data?.code\<close>) when a response arrived, whether
  \<open>error.request\<close> is set, and \<open>error.message\<close>.
\<close>

record axios_response =
  status :: int
  data_message :: "string option"
  data_code :: "string option"

record axios_error =
  response :: "axios_response option"
  request :: bool
  error_message :: string

text \<open>The constructors of \<open>errors.ts\<close> with their fixed fields.\<close>

definition new_WPAuthError :: js_error where
  "new_WPAuthError = WPAuthError ''WordPress Authentication Failed'' (Some 401) (Some ''WP_AUTH_FAILED'')"

definition new_WPNetworkError :: "string \<Rightarrow> js_error" where
  "new_WPNetworkError m = WPNetworkError m (Some 503) (Some ''WP_NETWORK_ERROR'')"

definition response_interceptor :: "axios_error \<Rightarrow> js_error" where
  "response_interceptor e =
     (case response e of
        Some r \<Rightarrow>
          if status r = 401 then new_WPAuthError
          else WPError (case data_message r of
                          None \<Rightarrow> ''WordPress API Error''
                        | Some m \<Rightarrow> if m = [] then ''WordPress API Error'' else m)
                 (Some (status r)) (data_code r)
      | None \<Rightarrow>
          if request e then new_WPNetworkError (error_message e)
          else AxiosError (error_message e))"

text \<open>
  Every method of the client (\<open>createPost\<close>, \<open>updatePost\<close>, \<open>deletePost\<close>, \<open>createPage\<close>,
  \<open>uploadMedia\<close>, \<open>updateSettings\<close>) awaits one request and returns its \<open>data\<close>; a failed
  request passes through the interceptor.
\<close>

definition client_call :: "axios_error + 'r \<Rightarrow> js_error + 'r" where
  "client_call outcome =
     (case outcome of Inr d \<Rightarrow> Inr d | Inl e \<Rightarrow> Inl (response_interceptor e))"

definition validateConnection :: "axios_error + 'r \<Rightarrow> bool" where
  "validateConnection outcome = (case client_call outcome of Inr d \<Rightarrow> True | Inl e \<Rightarrow> False)"


fun is_WPNetworkError :: "js_error \<Rightarrow> bool" where
  "is_WPNetworkError (WPNetworkError m s c) = True"
| "is_WPNetworkError e = False"


fun is_SSHError :: "js_error \<Rightarrow> bool" where
  "is_SSHError (SSHError m c) = True"
| "is_SSHError e = False"

fun instanceof_WPError :: "js_error \<Rightarrow> bool" where
  "instanceof_WPError (WPError m s c) = True"
| "instanceof_WPError (WPAuthError m s c) = True"
| "instanceof_WPError (WPNetworkError m s c) = True"
| "instanceof_WPError e = False"

section \<open>Sample inputs\<close>

text \<open>
  Concrete services, inputs and remote hosts on which the theorems below are instantiated.
  The sample parser accepts two texts and reads each as an object with that confidence.
\<close>

definition sample_parse :: "string \<Rightarrow> real option" where
  "sample_parse s = (if s = ''0.9'' then Some 0.9 else if s = ''0.7'' then Some 0.7 else None)"

definition sample_architecture :: SiteArchitecture where
  "sample_architecture =
     \<lparr>pages = [\<lparr>PageStructure.title = ''Home'', slug = ''home'', template = ''homepage'',
                 sections = [''hero''], priority = 1\<rparr>],
      features = [''SEO''], navigation = [NavigationItem ''Home'' ''/'' None], siteMap = [''/'']\<rparr>"

definition sample_design :: DesignConfig where
  "sample_design =
     \<lparr>DesignConfig.theme = ''astra'',
      colorPalette = \<lparr>primary = ''#111'', secondary = ''#222'', accent = ''#333'',
                      background = ''#fff'', text_color = ''#000''\<rparr>,
      typography = \<lparr>headingFont = ''Inter'', bodyFont = ''Lora''\<rparr>, style = modern\<rparr>"

definition sample_reader :: "real reader" where
  "sample_reader =
     \<lparr>read_confidence = (\<lambda>v. v), read_architecture = (\<lambda>v. sample_architecture),
      read_assumptions = (\<lambda>v. None), read_design = (\<lambda>v. sample_design),
      read_pages = (\<lambda>v. []), read_posts = (\<lambda>v. None)\<rparr>"

definition sample_input :: AgentInput where
  "sample_input =
     \<lparr>businessName = ''Corner Pizza'', businessType = ''restaurant'',
      description = ''Family pizza restaurant in Brooklyn'', industry = None,
      targetAudience = None\<rparr>"

definition garbled_service :: "real AIService" where
  "garbled_service =
     \<lparr>provider = (\<lambda>p sp. Inr ''Sorry, I cannot help with that.''), JSON_parse = sample_parse\<rparr>"


definition sample_config :: SSHConfig where
  "sample_config =
     \<lparr>host = ''203.0.113.7'', port = None, username = ''deploy'', privateKey = None,
      password = Some ''secret'', path = ''/var/www/html''\<rparr>"

definition sample_data :: DeploymentData where
  "sample_data =
     \<lparr>url = ''https://example.test'', DeploymentData.title = ''Corner Pizza'',
      adminUser = ''admin'', adminPass = ''pw'', adminEmail = ''owner@example.test'',
      DeploymentData.theme = Some ''astra'',
      plugins = Some [''wordpress-seo'', ''hello-dolly'', ''contact-form-7'']\<rparr>"

definition one_plugin_fails :: "string \<Rightarrow> session" where
  "one_plugin_fails c =
     (if c = fullCommand sample_config (plugin_command ''hello-dolly'' True)
      then Stream [StderrData ''Error: plugin not found.'', Close 1]
      else Stream [Data ''Success: done.'', Data [CHR 0x0A], Close 0])"

definition unreachable_host :: "string \<Rightarrow> session" where
  "unreachable_host c = ConnectError ''connect ECONNREFUSED 203.0.113.7:22''"




section \<open>Properties of the Generation Client\<close>

subsection \<open>The fence matcher finds a fenced block exactly when there is one\<close>

lemma starts_with_iff: "starts_with p s \<longleftrightarrow> (\<exists>t. s = p @ t)"
  by (induction p s rule: starts_with.induct) auto

lemma lazy_group_sound: "lazy_group s = Some g \<Longrightarrow> \<exists>after. s = g @ fence_close @ after"
proof (induction s arbitrary: g)
  case Nil
  then show ?case by simp
next
  case (Cons c cs)
  show ?case
  proof (cases "starts_with fence_close (c # cs)")
    case True
    with Cons.prems have "g = []" by simp
    with True show ?thesis by (simp add: starts_with_iff)
  next
    case False
    with Cons.prems obtain g' where g': "lazy_group cs = Some g'" "g = c # g'"
      by auto
    from Cons.IH [OF g'(1)] obtain after where "cs = g' @ fence_close @ after" ..
    with g'(2) show ?thesis by simp
  qed
qed

lemma lazy_group_complete: "lazy_group (g @ fence_close @ after) \<noteq> None"
proof (induction g)
  case Nil
  have "starts_with fence_close (fence_close @ after)"
    by (simp add: starts_with_iff)
  moreover have "fence_close @ after \<noteq> []"
    by (simp add: fence_close_def)
  ultimately show ?case by (cases "fence_close @ after") auto
next
  case (Cons c g)
  then show ?case by auto
qed

text \<open>The group is the shortest one: no closing fence starts inside it.\<close>

lemma lazy_group_shortest:
  "lazy_group s = Some g \<Longrightarrow> n < length g \<Longrightarrow> \<not> starts_with fence_close (drop n s)"
proof (induction s arbitrary: g n)
  case Nil
  then show ?case by simp
next
  case (Cons c cs)
  from Cons.prems have ns: "\<not> starts_with fence_close (c # cs)"
    by (auto split: if_splits)
  with Cons.prems obtain g' where g': "lazy_group cs = Some g'" "g = c # g'"
    by auto
  show ?case
  proof (cases n)
    case 0
    with ns show ?thesis by simp
  next
    case (Suc m)
    with Cons.prems(2) g'(2) have "m < length g'" by simp
    from Cons.IH [OF g'(1) this] Suc show ?thesis by simp
  qed
qed

lemma match_fence_sound: "match_fence opener s = Some g \<Longrightarrow> has_block opener s g"
proof (induction s)
  case Nil
  then show ?case by simp
next
  case (Cons c cs)
  show ?case
  proof (cases "starts_with opener (c # cs)
                \<and> lazy_group (drop (length opener) (c # cs)) \<noteq> None")
    case True
    then obtain t where t: "c # cs = opener @ t"
      by (auto simp: starts_with_iff)
    from True Cons.prems have "lazy_group (drop (length opener) (c # cs)) = Some g"
      by auto
    with t have "lazy_group t = Some g" by simp
    from lazy_group_sound [OF this] obtain after where "t = g @ fence_close @ after" ..
    with t have "c # cs = [] @ opener @ g @ fence_close @ after" by simp
    then show ?thesis unfolding has_block_def by blast
  next
    case False
    with Cons.prems have "match_fence opener cs = Some g"
      by (auto split: option.splits if_splits)
    from Cons.IH [OF this] obtain before after
      where "cs = before @ opener @ g @ fence_close @ after"
      unfolding has_block_def by blast
    then have "c # cs = (c # before) @ opener @ g @ fence_close @ after" by simp
    then show ?thesis unfolding has_block_def by blast
  qed
qed

lemma match_fence_complete:
  "match_fence opener (before @ opener @ g @ fence_close @ after) \<noteq> None"
proof (induction before)
  case Nil
  have "opener @ g @ fence_close @ after \<noteq> []"
    by (simp add: fence_close_def)
  then obtain c cs where ccs: "opener @ g @ fence_close @ after = c # cs"
    by (cases "opener @ g @ fence_close @ after") auto
  have sw: "starts_with opener (c # cs)"
    unfolding ccs [symmetric] by (simp add: starts_with_iff)
  have "drop (length opener) (c # cs) = g @ fence_close @ after"
    unfolding ccs [symmetric] by simp
  then have "lazy_group (drop (length opener) (c # cs)) \<noteq> None"
    by (simp add: lazy_group_complete)
  with sw have "match_fence opener (c # cs) \<noteq> None"
    by (auto split: option.splits)
  then show ?case using ccs by simp
next
  case (Cons c before)
  then show ?case by (auto split: option.splits)
qed

lemma match_fence_None_iff: "match_fence opener s = None \<longleftrightarrow> (\<forall>g. \<not> has_block opener s g)"
proof
  assume none: "match_fence opener s = None"
  show "\<forall>g. \<not> has_block opener s g"
  proof (intro allI notI)
    fix g
    assume "has_block opener s g"
    then obtain before after where "s = before @ opener @ g @ fence_close @ after"
      unfolding has_block_def by blast
    with match_fence_complete [of opener before g after] none show False by simp
  qed
next
  assume no: "\<forall>g. \<not> has_block opener s g"
  show "match_fence opener s = None"
  proof (cases "match_fence opener s")
    case None
    then show ?thesis .
  next
    case (Some g)
    from match_fence_sound [OF this] no show ?thesis by blast
  qed
qed

text \<open>
  A text without a line feed has no fenced block, so it is parsed as a whole. The compact
  output of a serializer is such a text.
\<close>

lemma no_line_feed_no_block:
  assumes "CHR 0x0A \<notin> set raw"
  shows "\<not> has_block fence_json raw g" and "\<not> has_block fence_plain raw g"
proof -
  show "\<not> has_block fence_json raw g"
  proof
    assume "has_block fence_json raw g"
    then obtain before after where "raw = before @ fence_json @ g @ fence_close @ after"
      unfolding has_block_def by blast
    then have "CHR 0x0A \<in> set raw" by (simp add: fence_json_def)
    with assms show False by simp
  qed
  show "\<not> has_block fence_plain raw g"
  proof
    assume "has_block fence_plain raw g"
    then obtain before after where "raw = before @ fence_plain @ g @ fence_close @ after"
      unfolding has_block_def by blast
    then have "CHR 0x0A \<in> set raw" by (simp add: fence_plain_def)
    with assms show False by simp
  qed
qed

lemma parseJSONResponse_without_line_feed:
  assumes "CHR 0x0A \<notin> set raw"
  shows "parseJSONResponse jp raw = parsed_or_malformed (jp (trim raw))"
proof -
  from no_line_feed_no_block [OF assms]
  have "match_fence fence_json raw = None" "match_fence fence_plain raw = None"
    by (simp_all add: match_fence_None_iff)
  then show ?thesis
    by (simp add: parseJSONResponse_def jsonString_def parsed_or_malformed_def)
qed

subsection \<open>Falling back to the full text after a fenced block would change nothing\<close>

lemma dropWhile_before_word:
  assumes "\<not> P x"
  shows "\<exists>b'. dropWhile P (b @ x # m) = b' @ x # m"
proof (cases "\<forall>c \<in> set b. P c")
  case True
  with assms have "dropWhile P (b @ x # m) = [] @ x # m"
    by (simp add: dropWhile_append)
  then show ?thesis by blast
next
  case False
  then have "dropWhile P (b @ x # m) = dropWhile P b @ x # m"
    by (auto simp: dropWhile_append)
  then show ?thesis by blast
qed

lemma trim_keeps_word:
  assumes "\<not> is_js_space x" "\<not> is_js_space y"
  shows "\<exists>b' a'. trim (b @ x # m @ y # a) = b' @ x # m @ y # a'"
proof -
  from dropWhile_before_word [where P = is_js_space and x = x and b = b and m = "m @ y # a",
      OF assms(1)] obtain b'
    where b': "dropWhile is_js_space (b @ x # m @ y # a) = b' @ x # m @ y # a" ..
  have "rev (b' @ x # m @ y # a) = rev a @ y # (rev m @ x # rev b')"
    by simp
  with dropWhile_before_word [where P = is_js_space and x = y and b = "rev a"
      and m = "rev m @ x # rev b'", OF assms(2)] obtain a'
    where "dropWhile is_js_space (rev (b' @ x # m @ y # a)) = a' @ y # (rev m @ x # rev b')"
    by auto
  with b' have "trim (b @ x # m @ y # a) = b' @ x # m @ y # rev a'"
    by (simp add: trim_def)
  then show ?thesis by blast
qed

lemma trim_keeps_block:
  assumes "has_block opener raw g" and "opener = CHR 0x60 # rest"
  shows "\<exists>b' a'. trim raw = b' @ opener @ a'"
proof -
  from assms(1) obtain before after where "raw = before @ opener @ g @ fence_close @ after"
    unfolding has_block_def by blast
  with assms(2)
  have raw: "raw = before @ CHR 0x60 # (rest @ g @ ''\<newline>``'') @ CHR 0x60 # after"
    by (simp add: fence_close_def)
  have "\<not> is_js_space (CHR 0x60)"
    by (simp add: is_js_space_def)
  from trim_keeps_word [OF this this, of before "rest @ g @ ''\<newline>``''" after] raw
  obtain b' a' where "trim raw = b' @ CHR 0x60 # (rest @ g @ ''\<newline>``'') @ CHR 0x60 # a'"
    by auto
  with assms(2) have "trim raw = b' @ opener @ (g @ ''\<newline>``'' @ CHR 0x60 # a')"
    by simp
  then show ?thesis by blast
qed

lemma fenced_text_is_not_json:
  assumes "rejects_fences jp"
    and "has_block fence_json raw g \<or> has_block fence_plain raw g"
  shows "jp (trim raw) = None"
  using assms(2)
proof
  assume "has_block fence_json raw g"
  from trim_keeps_block [OF this, of "''``json\<newline>''"] obtain b' a'
    where "trim raw = b' @ fence_json @ a'"
    by (auto simp: fence_json_def)
  with assms(1) show ?thesis by (simp add: rejects_fences_def)
next
  assume "has_block fence_plain raw g"
  from trim_keeps_block [OF this, of "''``\<newline>''"] obtain b' a'
    where "trim raw = b' @ fence_plain @ a'"
    by (auto simp: fence_plain_def)
  with assms(1) show ?thesis by (simp add: rejects_fences_def)
qed

text \<open>
  The code parses the content of a fenced block when it finds one and does not turn to the
  full text when that parse fails. For a parser with the property above the full text of such
  a response is not a JSON text either: the fault is raised exactly when both the extracted
  text and the full trimmed text fail to parse.
\<close>

lemma failure_iff_both_attempts_fail:
  assumes "rejects_fences jp"
  shows "parseJSONResponse jp raw = Inl malformed_response
           \<longleftrightarrow> jp (trim (jsonString raw)) = None \<and> jp (trim raw) = None"
proof -
  have "jp (trim raw) = None" if f: "jp (trim (jsonString raw)) = None"
  proof (cases "match_fence fence_json raw")
    case (Some g)
    from match_fence_sound [OF this] fenced_text_is_not_json [OF assms] show ?thesis
      by blast
  next
    case None
    show ?thesis
    proof (cases "match_fence fence_plain raw")
      case (Some g)
      from match_fence_sound [OF this] fenced_text_is_not_json [OF assms] show ?thesis
        by blast
    next
      case n: None
      with None f show ?thesis by (simp add: jsonString_def)
    qed
  qed
  then show ?thesis
    by (auto simp: parseJSONResponse_def split: option.splits)
qed

subsection \<open>Generation faults and parse faults have different messages\<close>

lemma generation_fault_prefix:
  "generateCompletion svc p sp = Inl e \<Longrightarrow> \<exists>m. e = Error (''AI generation failed: '' @ m)"
  by (auto simp: generateCompletion_def split: sum.splits)

lemma generation_fault_not_malformed: "generateCompletion svc p sp \<noteq> Inl malformed_response"
  by (auto simp: generateCompletion_def malformed_response_def split: sum.splits)

text \<open>
  Claim C5. For every raw response, the payload extraction first tries a fenced block: when
  the response has a block fenced with \<open>```json\<close>, the outcome is the parse of the trimmed
  content of such a block; when it has none but has a block fenced with plain \<open>```\<close>, the
  outcome is the parse of the trimmed content of such a block; when it has no fenced block at
  all, the outcome is the parse of the full trimmed text. A parse that fails raises the
  malformed-response fault, which no call of \<open>generateCompletion\<close> raises; a parse that
  succeeds produces its one payload.
\<close>

theorem parseJSONResponse_fence_then_full_text:
  "((\<exists>g. has_block fence_json raw g) \<longrightarrow>
      (\<exists>g. has_block fence_json raw g
           \<and> parseJSONResponse jp raw = parsed_or_malformed (jp (trim g))))
   \<and> ((\<forall>g. \<not> has_block fence_json raw g) \<and> (\<exists>g. has_block fence_plain raw g) \<longrightarrow>
      (\<exists>g. has_block fence_plain raw g
           \<and> parseJSONResponse jp raw = parsed_or_malformed (jp (trim g))))
   \<and> ((\<forall>g. \<not> has_block fence_json raw g) \<and> (\<forall>g. \<not> has_block fence_plain raw g) \<longrightarrow>
      parseJSONResponse jp raw = parsed_or_malformed (jp (trim raw)))
   \<and> (\<forall>e. parseJSONResponse jp raw = Inl e \<longrightarrow>
          e = malformed_response
          \<and> (\<forall>svc p sp. generateCompletion (svc :: 'k AIService) p sp \<noteq> Inl e))"
proof (intro conjI impI allI)
  assume "\<exists>g. has_block fence_json raw g"
  then have "match_fence fence_json raw \<noteq> None"
    by (simp add: match_fence_None_iff)
  then obtain g where g: "match_fence fence_json raw = Some g" by auto
  then have "parseJSONResponse jp raw = parsed_or_malformed (jp (trim g))"
    by (simp add: parseJSONResponse_def jsonString_def parsed_or_malformed_def)
  with match_fence_sound [OF g]
  show "\<exists>g. has_block fence_json raw g
           \<and> parseJSONResponse jp raw = parsed_or_malformed (jp (trim g))"
    by blast
next
  assume "(\<forall>g. \<not> has_block fence_json raw g) \<and> (\<exists>g. has_block fence_plain raw g)"
  then have j: "match_fence fence_json raw = None"
    and "match_fence fence_plain raw \<noteq> None"
    by (simp_all add: match_fence_None_iff)
  then obtain g where g: "match_fence fence_plain raw = Some g" by auto
  with j have "parseJSONResponse jp raw = parsed_or_malformed (jp (trim g))"
    by (simp add: parseJSONResponse_def jsonString_def parsed_or_malformed_def)
  with match_fence_sound [OF g]
  show "\<exists>g. has_block fence_plain raw g
           \<and> parseJSONResponse jp raw = parsed_or_malformed (jp (trim g))"
    by blast
next
  assume "(\<forall>g. \<not> has_block fence_json raw g) \<and> (\<forall>g. \<not> has_block fence_plain raw g)"
  then have "match_fence fence_json raw = None" "match_fence fence_plain raw = None"
    by (simp_all add: match_fence_None_iff)
  then show "parseJSONResponse jp raw = parsed_or_malformed (jp (trim raw))"
    by (simp add: parseJSONResponse_def jsonString_def parsed_or_malformed_def)
next
  fix e
  assume "parseJSONResponse jp raw = Inl e"
  then show "e = malformed_response"
    by (auto simp: parseJSONResponse_def split: option.splits)
next
  fix e and svc :: "'k AIService" and p sp
  assume "parseJSONResponse jp raw = Inl e"
  then have "e = malformed_response"
    by (auto simp: parseJSONResponse_def split: option.splits)
  then show "generateCompletion svc p sp \<noteq> Inl e"
    by (simp add: generation_fault_not_malformed)
qed

theorem parseJSONResponse_fence_then_full_text_witness:
  "(\<exists>g. has_block fence_json ''Plan: ```json\<newline>0.9\<newline>``` done'' g)
   \<and> (\<exists>g. has_block fence_json ''Plan: ```json\<newline>0.9\<newline>``` done'' g
          \<and> parseJSONResponse sample_parse ''Plan: ```json\<newline>0.9\<newline>``` done''
              = parsed_or_malformed (sample_parse (trim g)))
   \<and> (\<forall>g. \<not> has_block fence_json '' 0.7 '' g) \<and> (\<forall>g. \<not> has_block fence_plain '' 0.7 '' g)
   \<and> parseJSONResponse sample_parse '' 0.7 '' = parsed_or_malformed (sample_parse (trim '' 0.7 ''))
   \<and> parseJSONResponse sample_parse ''no json'' = Inl malformed_response
   \<and> generateCompletion garbled_service (PLANNING_AGENT_PROMPT [] [] []) [] \<noteq> Inl malformed_response"
proof -
  let ?fenced = "''Plan: ```json\<newline>0.9\<newline>``` done''"
  have "?fenced = ''Plan: '' @ fence_json @ ''0.9'' @ fence_close @ '' done''"
    by (simp add: fence_json_def fence_close_def)
  then have h1: "\<exists>g. has_block fence_json ?fenced g"
    unfolding has_block_def by blast
  have m2: "match_fence fence_json '' 0.7 '' = None"
    and m3: "match_fence fence_plain '' 0.7 '' = None"
    by (simp_all add: fence_json_def fence_plain_def fence_close_def)
  have h2: "\<forall>g. \<not> has_block fence_json '' 0.7 '' g"
    by (rule iffD1 [OF match_fence_None_iff m2])
  have h3: "\<forall>g. \<not> has_block fence_plain '' 0.7 '' g"
    by (rule iffD1 [OF match_fence_None_iff m3])
  have h4: "parseJSONResponse sample_parse ''no json'' = Inl malformed_response"
    by (simp add: parseJSONResponse_def jsonString_def fence_json_def fence_plain_def
        fence_close_def trim_def is_js_space_def sample_parse_def)
  note t1 = parseJSONResponse_fence_then_full_text [of ?fenced sample_parse]
  note t2 = parseJSONResponse_fence_then_full_text [of "'' 0.7 ''" sample_parse]
  note t3 = parseJSONResponse_fence_then_full_text [of "''no json''" sample_parse]
  from t1 h1 have c1: "\<exists>g. has_block fence_json ?fenced g
          \<and> parseJSONResponse sample_parse ?fenced = parsed_or_malformed (sample_parse (trim g))"
    by blast
  from t2 h2 h3 have c2: "parseJSONResponse sample_parse '' 0.7 ''
      = parsed_or_malformed (sample_parse (trim '' 0.7 ''))"
    by blast
  from t3 h4 have c3: "generateCompletion garbled_service (PLANNING_AGENT_PROMPT [] [] []) []
      \<noteq> Inl malformed_response"
    by blast
  from h1 c1 h2 h3 c2 h4 c3 show ?thesis by (intro conjI)
qed

section \<open>Properties of the agents and of the Orchestrator\<close>

text \<open>
  JavaScript numbers are read as real numbers: the sum and the quotient of \<open>orchestrate\<close> are
  exact here, where the runtime rounds them to doubles.
\<close>

subsection \<open>What an agent returns\<close>

lemma planning_failed_shape:
  "\<not> AgentOutput.success (PlanningAgent_execute svc rd inp) \<Longrightarrow>
     \<exists>e. PlanningAgent_execute svc rd inp = agent_failed e"
  by (auto simp: PlanningAgent_execute_def split: sum.splits)


lemma agent_failed_malformed: "agent_failed malformed_response = invalid_output"
  by (simp add: agent_failed_def invalid_output_def malformed_response_def)

text \<open>
  Claim C6. If the Generation Client returns, on every call, a text from which no payload can
  be parsed, then each of the Planning, Design and Content agents returns the output with
  \<open>success = false\<close>, \<open>confidence = 0\<close> and the one error \<open>Invalid JSON response from AI\<close>; the
  agent returns an output, it raises nothing.
\<close>

theorem agents_fail_on_invalid_text:
  assumes "\<forall>p sp. \<exists>reply. provider svc p sp = Inr reply
                          \<and> JSON_parse svc (trim (jsonString reply)) = None"
  shows "PlanningAgent_execute svc rd inp = invalid_output
         \<and> DesignAgent_execute svc rd inp = invalid_output
         \<and> ContentAgent_execute svc rd inp ps = invalid_output
         \<and> AgentOutput.success (invalid_output :: 'd AgentOutput) = False
         \<and> confidence (invalid_output :: 'd AgentOutput) = 0
         \<and> AgentOutput.errors (invalid_output :: 'd AgentOutput) \<noteq> None
         \<and> AgentOutput.errors (invalid_output :: 'd AgentOutput) \<noteq> Some []"
proof -
  have gen: "\<exists>reply. generateCompletion svc p sp = Inr reply
                \<and> parseJSONResponse (JSON_parse svc) reply = Inl malformed_response" for p sp
  proof -
    from assms obtain reply
      where "provider svc p sp = Inr reply" "JSON_parse svc (trim (jsonString reply)) = None"
      by blast
    then show ?thesis by (simp add: generateCompletion_def parseJSONResponse_def)
  qed
  have "PlanningAgent_execute svc rd inp = invalid_output"
    using gen [of "PLANNING_AGENT_PROMPT (businessName inp) (businessType inp) (description inp)"
        "''You are a website planning expert. Always respond with valid JSON only.''"]
    by (auto simp: PlanningAgent_execute_def agent_failed_malformed)
  moreover have "DesignAgent_execute svc rd inp = invalid_output"
    using gen [of "DESIGN_AGENT_PROMPT (businessName inp) (businessType inp)
                (case industry inp of
                   None \<Rightarrow> businessType inp
                 | Some i \<Rightarrow> if i = [] then businessType inp else i)"
        "''You are a web design expert. Always respond with valid JSON only.''"]
    by (auto simp: DesignAgent_execute_def agent_failed_malformed)
  moreover have "ContentAgent_execute svc rd inp ps = invalid_output"
    using gen [of "CONTENT_AGENT_PROMPT (businessName inp) (businessType inp)
                (map (\<lambda>p. (PageStructure.title p, PageStructure.slug p)) ps)"
        "''You are an expert content writer. Always respond with valid JSON only.''"]
    by (auto simp: ContentAgent_execute_def agent_failed_malformed)
  ultimately show ?thesis by (simp add: invalid_output_def)
qed

theorem agents_fail_on_invalid_text_witness:
  "(\<forall>p sp. \<exists>reply. provider garbled_service p sp = Inr reply
                    \<and> JSON_parse garbled_service (trim (jsonString reply)) = None)
   \<and> PlanningAgent_execute garbled_service sample_reader sample_input = invalid_output
   \<and> DesignAgent_execute garbled_service sample_reader sample_input = invalid_output
   \<and> ContentAgent_execute garbled_service sample_reader sample_input
        (SiteArchitecture.pages sample_architecture) = invalid_output"
proof -
  have h: "\<forall>p sp. \<exists>reply. provider garbled_service p sp = Inr reply
                    \<and> JSON_parse garbled_service (trim (jsonString reply)) = None"
    by (simp add: garbled_service_def jsonString_def fence_json_def fence_plain_def
        fence_close_def trim_def is_js_space_def sample_parse_def)
  from agents_fail_on_invalid_text [OF h, of sample_reader sample_input
      "SiteArchitecture.pages sample_architecture"]
  have "PlanningAgent_execute garbled_service sample_reader sample_input = invalid_output"
    and "DesignAgent_execute garbled_service sample_reader sample_input = invalid_output"
    and "ContentAgent_execute garbled_service sample_reader sample_input
        (SiteArchitecture.pages sample_architecture) = invalid_output"
    by blast+
  with h show ?thesis by (intro conjI)
qed

text \<open>
  Claim C1, as the code has it. For every input, if the Planning agent returns
  \<open>success = false\<close>, then \<open>orchestrate\<close> emits the planning progress event, executes the
  Planning agent and nothing else (neither the Design nor the Content agent), and returns
  \<open>success = false\<close> with \<open>overallConfidence\<close> present and equal to 0, no architecture, content
  or design, and the non-empty errors of the Planning agent in \<open>errors\<close>.
\<close>

theorem planning_failure_aborts:
  assumes "\<not> AgentOutput.success (PlanningAgent_execute svc rd inp)"
  shows "\<exists>es. AgentOutput.errors (PlanningAgent_execute svc rd inp) = Some es \<and> es \<noteq> []
           \<and> orchestrate svc rd inp =
               (\<lparr>success = False, siteArchitecture = None, content = None, design = None,
                 overallConfidence = Some 0, errors = es\<rparr>,
                [Progress ''planning'' 10 ''Analyzing business and creating site architecture...'',
                 Execute PlanningAgent])"
proof -
  from planning_failed_shape [OF assms] obtain e
    where e: "PlanningAgent_execute svc rd inp = agent_failed e" ..
  then have "AgentOutput.errors (PlanningAgent_execute svc rd inp) = Some [message e]"
    by (simp add: agent_failed_def)
  moreover from this assms have "orchestrate svc rd inp =
               (\<lparr>success = False, siteArchitecture = None, content = None, design = None,
                 overallConfidence = Some 0, errors = [message e]\<rparr>,
                [Progress ''planning'' 10 ''Analyzing business and creating site architecture...'',
                 Execute PlanningAgent])"
    by (simp add: orchestrate_def Let_def errors_or_def)
  ultimately show ?thesis by blast
qed

lemma garbled_planning_fails:
  "PlanningAgent_execute garbled_service sample_reader sample_input = invalid_output"
  by (simp add: PlanningAgent_execute_def generateCompletion_def garbled_service_def
      parseJSONResponse_def jsonString_def fence_json_def fence_plain_def fence_close_def
      trim_def is_js_space_def sample_parse_def agent_failed_malformed)

theorem planning_failure_aborts_witness:
  "\<not> AgentOutput.success (PlanningAgent_execute garbled_service sample_reader sample_input)
   \<and> (\<exists>es. AgentOutput.errors (PlanningAgent_execute garbled_service sample_reader sample_input)
              = Some es \<and> es \<noteq> []
           \<and> orchestrate garbled_service sample_reader sample_input =
               (\<lparr>success = False, siteArchitecture = None, content = None, design = None,
                 overallConfidence = Some 0, errors = es\<rparr>,
                [Progress ''planning'' 10 ''Analyzing business and creating site architecture...'',
                 Execute PlanningAgent]))"
proof -
  have h: "\<not> AgentOutput.success (PlanningAgent_execute garbled_service sample_reader sample_input)"
    by (simp add: garbled_planning_fails invalid_output_def)
  from h planning_failure_aborts [OF h] show ?thesis by (rule conjI)
qed

text \<open>
  Claim C1 as stated says that the aborted run returns no confidence value. On the sample
  input with the service whose text cannot be parsed, Planning fails and the returned object
  has the field \<open>overallConfidence\<close>, with the number 0.
\<close>

theorem planning_failure_confidence_counterexample:
  "\<not> AgentOutput.success (PlanningAgent_execute garbled_service sample_reader sample_input)
   \<and> overallConfidence (fst (orchestrate garbled_service sample_reader sample_input)) \<noteq> None
   \<and> overallConfidence (fst (orchestrate garbled_service sample_reader sample_input)) = Some 0"
  by (simp add: orchestrate_def Let_def garbled_planning_fails invalid_output_def)






section \<open>Properties of the Remote Command Channel\<close>

lemma run_stream_until_close:
  "\<forall>e \<in> set before. \<not> is_Close e \<Longrightarrow>
     run_stream (before @ Close code # after) out err =
       Some (code, out @ stdout_of before, err @ stderr_of before)"
proof (induction before arbitrary: out err)
  case Nil
  then show ?case by simp
next
  case (Cons e before)
  then show ?case by (cases e) simp_all
qed

lemma decimal_digits_1: "number_text 1 = ''1''"
  by code_simp

text \<open>
  Claim C7. For every invocation whose connection becomes ready and whose stream closes with
  an exit code: if the code is 0 the call resolves with the standard output written before
  the close, trimmed; if the code is not 0 the call rejects (so it does not resolve) with an
  \<open>SSHError\<close> whose \<open>command\<close> is the command text and whose message ends with the standard
  error written before the close.
\<close>

theorem executeCommand_by_exit_code:
  assumes "remote (fullCommand config cmd) = Stream (before @ Close code # after)"
    and "\<forall>e \<in> set before. \<not> is_Close e"
  shows "(code = 0 \<longrightarrow>
            fst (executeCommand config remote cmd) = Resolved (trim (stdout_of before)))
       \<and> (code \<noteq> 0 \<longrightarrow>
            fst (executeCommand config remote cmd) =
              Rejected (SSHError (''Command failed with code '' @ number_text code @ '': ''
                                   @ stderr_of before) (Some cmd))
            \<and> (\<forall>out. fst (executeCommand config remote cmd) \<noteq> Resolved out))"
  using assms by (simp add: executeCommand_def run_stream_until_close)

theorem executeCommand_by_exit_code_witness:
  "one_plugin_fails (fullCommand sample_config ''wp core version'')
     = Stream ([Data ''Success: done.'', Data [CHR 0x0A]] @ Close 0 # [])
   \<and> \<not> is_Close (Data ''Success: done.'') \<and> \<not> is_Close (Data [CHR 0x0A])
   \<and> fst (executeCommand sample_config one_plugin_fails ''wp core version'')
       = Resolved ''Success: done.''
   \<and> one_plugin_fails (fullCommand sample_config (plugin_command ''hello-dolly'' True))
       = Stream ([StderrData ''Error: plugin not found.''] @ Close 1 # [])
   \<and> \<not> is_Close (StderrData ''Error: plugin not found.'')
   \<and> fst (executeCommand sample_config one_plugin_fails (plugin_command ''hello-dolly'' True))
       = Rejected (SSHError ''Command failed with code 1: Error: plugin not found.''
                     (Some ''wp plugin install hello-dolly --activate''))"
proof -
  have a1: "one_plugin_fails (fullCommand sample_config ''wp core version'')
     = Stream ([Data ''Success: done.'', Data [CHR 0x0A]] @ Close 0 # [])"
    by (simp add: one_plugin_fails_def fullCommand_def plugin_command_def)
  have a2: "\<forall>e \<in> set [Data ''Success: done.'', Data [CHR 0x0A]]. \<not> is_Close e"
    by simp
  have b1: "one_plugin_fails (fullCommand sample_config (plugin_command ''hello-dolly'' True))
       = Stream ([StderrData ''Error: plugin not found.''] @ Close 1 # [])"
    by (simp add: one_plugin_fails_def)
  have b2: "\<forall>e \<in> set [StderrData ''Error: plugin not found.'']. \<not> is_Close e"
    by simp
  from executeCommand_by_exit_code [where remote = one_plugin_fails, OF a1 a2]
  have a3: "fst (executeCommand sample_config one_plugin_fails ''wp core version'')
       = Resolved ''Success: done.''"
    by (simp add: trim_def is_js_space_def)
  from executeCommand_by_exit_code [where remote = one_plugin_fails, OF b1 b2]
  have b3: "fst (executeCommand sample_config one_plugin_fails (plugin_command ''hello-dolly'' True))
       = Rejected (SSHError ''Command failed with code 1: Error: plugin not found.''
                     (Some ''wp plugin install hello-dolly --activate''))"
    by (simp add: decimal_digits_1 plugin_command_def)
  from a1 a3 b1 b3 show ?thesis by simp
qed

text \<open>
  Claim C8, as the code has it. When the connection cannot be established, the call rejects
  with an \<open>SSHError\<close> that carries the message of the connection error and the command text:
  the class that a non-zero exit code raises as well. It is not a \<open>WPNetworkError\<close>, the only
  network error class of the repository. The connection is opened and closed and no command
  is handed to the host.
\<close>

theorem connection_failure_raises_SSHError:
  assumes "remote (fullCommand config cmd) = ConnectError m"
  shows "executeCommand config remote cmd
           = (Rejected (SSHError m (Some cmd)), [Connect, Disconnect])
         \<and> is_SSHError (SSHError m (Some cmd))
         \<and> \<not> is_WPNetworkError (SSHError m (Some cmd))"
  using assms by (simp add: executeCommand_def)

theorem connection_failure_raises_SSHError_witness:
  "unreachable_host (fullCommand sample_config ''wp core version'')
     = ConnectError ''connect ECONNREFUSED 203.0.113.7:22''
   \<and> executeCommand sample_config unreachable_host ''wp core version''
       = (Rejected (SSHError ''connect ECONNREFUSED 203.0.113.7:22'' (Some ''wp core version'')),
          [Connect, Disconnect])"
proof -
  have h: "unreachable_host (fullCommand sample_config ''wp core version'')
     = ConnectError ''connect ECONNREFUSED 203.0.113.7:22''"
    by (simp add: unreachable_host_def)
  from connection_failure_raises_SSHError [where remote = unreachable_host, OF h]
  have "executeCommand sample_config unreachable_host ''wp core version''
       = (Rejected (SSHError ''connect ECONNREFUSED 203.0.113.7:22'' (Some ''wp core version'')),
          [Connect, Disconnect])"
    by (rule conjunct1)
  with h show ?thesis by (rule conjI)
qed

text \<open>
  Claim C8 as stated says that an unreachable host raises a network error and not the error
  of a failed command. Against the sample host that refuses the connection, the error raised
  is an \<open>SSHError\<close>, not a \<open>WPNetworkError\<close>; against the sample host on which one command
  exits with code 1, the error raised is an \<open>SSHError\<close> too.
\<close>

theorem unreachable_host_counterexample:
  "fst (executeCommand sample_config unreachable_host ''wp core version'')
     = Rejected (SSHError ''connect ECONNREFUSED 203.0.113.7:22'' (Some ''wp core version''))
   \<and> \<not> is_WPNetworkError
         (SSHError ''connect ECONNREFUSED 203.0.113.7:22'' (Some ''wp core version''))
   \<and> is_SSHError (SSHError ''connect ECONNREFUSED 203.0.113.7:22'' (Some ''wp core version''))
   \<and> fst (executeCommand sample_config one_plugin_fails (plugin_command ''hello-dolly'' True))
       = Rejected (SSHError ''Command failed with code 1: Error: plugin not found.''
                     (Some ''wp plugin install hello-dolly --activate''))
   \<and> is_SSHError (SSHError ''Command failed with code 1: Error: plugin not found.''
                     (Some ''wp plugin install hello-dolly --activate''))"
  by (simp add: executeCommand_def unreachable_host_def one_plugin_fails_def decimal_digits_1
      plugin_command_def)

section \<open>Properties of the Content API Client\<close>



text \<open>
  Outside the three cases, an error with neither a response nor a request is re-thrown as it
  is. Each of the three errors is a \<open>WPError\<close> in the sense of \<open>instanceof\<close>, the first and the
  third through a subclass.
\<close>

lemma interceptor_passes_other_errors:
  "response e = None \<Longrightarrow> \<not> request e \<Longrightarrow>
     client_call (Inl e) = Inl (AxiosError (error_message e))"
  by (simp add: client_call_def response_interceptor_def)

lemma interceptor_instanceof_WPError:
  "response e \<noteq> None \<or> request e \<Longrightarrow> instanceof_WPError (response_interceptor e)"
  by (auto simp: response_interceptor_def new_WPAuthError_def new_WPNetworkError_def
      split: option.splits)

section \<open>Properties of the Deployment Engine\<close>

subsection \<open>Effects and sequencing\<close>

lemma executed_append: "executed (t @ u) = executed t @ executed u"
  by (induction t rule: executed.induct) simp_all


lemma fullCommand_inject: "fullCommand config c = fullCommand config c' \<longleftrightarrow> c = c'"
  by (simp add: fullCommand_def)

lemma and_then_Rejected: "fst a = Rejected e \<Longrightarrow> and_then a b = (Rejected e, snd a)"
  by (simp add: and_then_def)


lemma and_then_ok:
  assumes "\<exists>x. fst a = Resolved x"
  shows "fst (and_then a b) = fst b"
    and "executed (snd (and_then a b)) = executed (snd a) @ executed (snd b)"
  using assms by (auto simp: and_then_def executed_append)








lemma terminal_status_append_DbUpdate:
  "terminal_status siteId (t @ [DbUpdate siteId s]) = Some s"
  by (induction t) simp_all

subsection \<open>One invocation\<close>

lemma executeCommand_exit_0:
  "exits_with (remote (fullCommand config c)) 0 \<Longrightarrow>
     \<exists>out. executeCommand config remote c =
       (Resolved out, [Connect, Log INFO (''Executing SSH: '' @ fullCommand config c) None,
                       Exec (fullCommand config c), Disconnect])"
  by (auto simp: exits_with_def executeCommand_def split: session.splits option.splits)

lemma executeCommand_ok:
  assumes "exits_with (remote (fullCommand config c)) 0"
  shows "\<exists>out. fst (executeCommand config remote c) = Resolved out"
    and "executed (snd (executeCommand config remote c)) = [fullCommand config c]"
  using executeCommand_exit_0 [where remote = remote and config = config and c = c, OF assms]
  by auto

lemma executeCommand_nonzero:
  assumes "remote (fullCommand config c) = Stream (before @ Close code # after)"
    and "\<forall>ev \<in> set before. \<not> is_Close ev" and "code \<noteq> 0"
  shows "executeCommand config remote c =
           (Rejected (SSHError (''Command failed with code '' @ number_text code @ '': ''
                               @ stderr_of before) (Some c)),
            [Connect, Log INFO (''Executing SSH: '' @ fullCommand config c) None,
             Exec (fullCommand config c), Disconnect])"
  using assms by (simp add: executeCommand_def run_stream_until_close)






subsection \<open>A run stops at the first invocation that does not succeed\<close>




subsection \<open>The plugin loop\<close>





lemma plugin_command_inject: "plugin_command q True = plugin_command p True \<longleftrightarrow> q = p"
  by (simp add: plugin_command_def)

lemma core_not_plugin: "core_command a b c d e \<noteq> plugin_command p True"
  by (simp add: core_command_def plugin_command_def)

lemma theme_not_plugin: "theme_command t True \<noteq> plugin_command p True"
  by (simp add: theme_command_def plugin_command_def)

lemma install_plugins_until_failure:
  assumes others: "\<forall>c. c \<noteq> fullCommand config (plugin_command p True) \<longrightarrow> exits_with (remote c) 0"
    and str: "remote (fullCommand config (plugin_command p True))
                = Stream (before @ Close code # after)"
    and nc: "\<forall>ev \<in> set before. \<not> is_Close ev" and nz: "code \<noteq> 0"
  shows "p \<notin> set earlier \<Longrightarrow>
         fst (install_plugins config remote (earlier @ p # later)) =
           Rejected (SSHError (''Command failed with code '' @ number_text code @ '': ''
                               @ stderr_of before) (Some (plugin_command p True)))
       \<and> executed (snd (install_plugins config remote (earlier @ p # later))) =
           map (\<lambda>q. fullCommand config (plugin_command q True)) (earlier @ [p])"
proof (induction earlier)
  case Nil
  from executeCommand_nonzero [where remote = remote, OF str nc nz] show ?case
    by (simp add: wpPluginInstall_def and_then_def)
next
  case (Cons q earlier)
  then have "q \<noteq> p" and rest: "p \<notin> set earlier" by auto
  then have "fullCommand config (plugin_command q True)
               \<noteq> fullCommand config (plugin_command p True)"
    by (simp add: fullCommand_inject plugin_command_inject)
  with others have ok: "exits_with (remote (fullCommand config (plugin_command q True))) 0"
    by simp
  from executeCommand_ok [where remote = remote, OF ok]
    and_then_ok [of "executeCommand config remote (plugin_command q True)"
      "install_plugins config remote (earlier @ p # later)"] Cons.IH [OF rest]
  show ?case by (simp add: wpPluginInstall_def)
qed

subsection \<open>The steps and the \<open>try\<close> block\<close>




lemma core_step_ok:
  assumes "exits_with (remote (fullCommand config (core_command (url d) (DeploymentData.title d)
              (adminUser d) (adminPass d) (adminEmail d)))) 0"
  shows "\<exists>x. fst (core_step config remote d) = Resolved x"
    and "executed (snd (core_step config remote d)) =
           [fullCommand config (core_command (url d) (DeploymentData.title d)
              (adminUser d) (adminPass d) (adminEmail d))]"
  using executeCommand_ok [where remote = remote, OF assms]
  by (auto simp: core_step_def wpCoreInstall_def and_then_def executed_append)

lemma theme_step_eq:
  "theme_step config remote d = skip \<and> theme_commands d = []
   \<or> (\<exists>t. theme_commands d = [theme_command t True] \<and> theme_step config remote d =
         and_then (Resolved (), [Emit ''theme_install'' (''Installing theme: '' @ t)])
           (and_then (wpThemeInstall config remote t True) skip))"
  by (auto simp: theme_step_def theme_commands_def split: option.splits)




lemma theme_step_ok:
  assumes "\<forall>t. exits_with (remote (fullCommand config (theme_command t True))) 0"
  shows "\<exists>x. fst (theme_step config remote d) = Resolved x"
    and "executed (snd (theme_step config remote d)) = map (fullCommand config) (theme_commands d)"
proof -
  have "(\<exists>x. fst (theme_step config remote d) = Resolved x)
      \<and> executed (snd (theme_step config remote d)) = map (fullCommand config) (theme_commands d)"
    using theme_step_eq [of config remote d]
  proof (elim disjE conjE exE)
    assume "theme_step config remote d = skip" "theme_commands d = []"
    then show ?thesis by (simp add: skip_def)
  next
    fix t
    assume tc: "theme_commands d = [theme_command t True]"
      and eq: "theme_step config remote d =
         and_then (Resolved (), [Emit ''theme_install'' (''Installing theme: '' @ t)])
           (and_then (wpThemeInstall config remote t True) skip)"
    from assms have "exits_with (remote (fullCommand config (theme_command t True))) 0"
      by simp
    from executeCommand_ok [where remote = remote, OF this] show ?thesis
      unfolding eq tc by (auto simp: skip_def wpThemeInstall_def and_then_def executed_append)
  qed
  then show "\<exists>x. fst (theme_step config remote d) = Resolved x"
    and "executed (snd (theme_step config remote d)) = map (fullCommand config) (theme_commands d)"
    by simp_all
qed










lemma deploySite_Rejected:
  assumes "fst (try_block config remote siteId d) = Rejected e"
  shows "deploySite config remote siteId d =
           (Rejected e,
            ([Log INFO (''Starting deployment for site '' @ siteId) None,
              Emit ''init'' ''Initializing deployment...'']
             @ snd (try_block config remote siteId d))
            @ [Log ERROR (''Deployment failed for site '' @ siteId) (Some e),
               Emit ''failed'' (message e), DbUpdate siteId FAILED])"
  using assms by (simp add: deploySite_def Let_def)

subsection \<open>A failing plugin install\<close>



lemma one_plugin_fails_stream:
  "one_plugin_fails (fullCommand sample_config (plugin_command ''hello-dolly'' True))
     = Stream ([StderrData ''Error: plugin not found.''] @ Close 1 # [])"
  by (simp add: one_plugin_fails_def)


text \<open>
  Claim C4, as the code has it. \<open>deploySite\<close> has no notion of an optional plugin: when exactly
  one plugin's install exits with a non-zero code and every other command exits with 0, the
  run rejects with the \<open>SSHError\<close> of that install, the terminal site status is \<open>FAILED\<close>, the
  failure is logged at the error level with that error, and the commands handed to the host
  are the core install, the theme install if a theme is given, and the plugin installs up to
  and including the failing one; the plugins listed after it are not installed.
\<close>

theorem one_failed_plugin_fails_deployment:
  assumes ps: "plugins d = Some (earlier @ p # later)"
    and first: "p \<notin> set earlier"
    and others: "\<forall>c. c \<noteq> fullCommand config (plugin_command p True) \<longrightarrow> exits_with (remote c) 0"
    and str: "remote (fullCommand config (plugin_command p True))
                = Stream (before @ Close code # after)"
    and nc: "\<forall>ev \<in> set before. \<not> is_Close ev"
    and nz: "code \<noteq> 0"
  shows "fst (deploySite config remote siteId d) =
           Rejected (SSHError (''Command failed with code '' @ number_text code @ '': ''
                               @ stderr_of before) (Some (plugin_command p True)))
       \<and> terminal_status siteId (snd (deploySite config remote siteId d)) = Some FAILED
       \<and> Log ERROR (''Deployment failed for site '' @ siteId)
            (Some (SSHError (''Command failed with code '' @ number_text code @ '': ''
                               @ stderr_of before) (Some (plugin_command p True))))
           \<in> set (snd (deploySite config remote siteId d))
       \<and> executed (snd (deploySite config remote siteId d)) =
           map (fullCommand config)
             (core_command (url d) (DeploymentData.title d) (adminUser d) (adminPass d)
                (adminEmail d)
              # theme_commands d @ map (\<lambda>q. plugin_command q True) (earlier @ [p]))"
proof -
  let ?E = "SSHError (''Command failed with code '' @ number_text code @ '': ''
                               @ stderr_of before) (Some (plugin_command p True))"
  let ?core = "core_command (url d) (DeploymentData.title d) (adminUser d) (adminPass d)
                 (adminEmail d)"
  let ?body = "try_block config remote siteId d"
  from others have "exits_with (remote (fullCommand config ?core)) 0"
    by (simp add: fullCommand_inject core_not_plugin)
  note core = core_step_ok [where remote = remote, OF this]
  from others have "\<forall>t. exits_with (remote (fullCommand config (theme_command t True))) 0"
    by (simp add: fullCommand_inject theme_not_plugin)
  note theme = theme_step_ok [where remote = remote and d = d, OF this]
  note inst = install_plugins_until_failure [where remote = remote and later = later,
      OF others str nc nz first]
  have plug: "fst (plugins_step config remote d) = Rejected ?E"
    "executed (snd (plugins_step config remote d)) =
       map (\<lambda>q. fullCommand config (plugin_command q True)) (earlier @ [p])"
    using inst ps by (simp_all add: plugins_step_def and_then_def)
  define r3 where "r3 = and_then (plugins_step config remote d)
             (Resolved (),
              [DbUpdate siteId DEPLOYED, Emit ''completed'' ''Deployment successful!'',
               Log INFO (''Deployment completed for site '' @ siteId) None])"
  define r2 where "r2 = and_then (theme_step config remote d) r3"
  have tb: "?body = and_then (core_step config remote d) r2"
    by (simp only: try_block_def r2_def r3_def)
  have "r3 = (Rejected ?E, snd (plugins_step config remote d))"
    unfolding r3_def by (rule and_then_Rejected [OF plug(1)])
  then have r3: "fst r3 = Rejected ?E" "executed (snd r3) =
       map (\<lambda>q. fullCommand config (plugin_command q True)) (earlier @ [p])"
    by (simp_all only: fst_conv snd_conv plug(2))
  have r2: "fst r2 = Rejected ?E"
    "executed (snd r2) = map (fullCommand config) (theme_commands d)
       @ map (\<lambda>q. fullCommand config (plugin_command q True)) (earlier @ [p])"
    unfolding r2_def
    by (simp_all only: and_then_ok [OF theme(1)] r3 theme(2))
  have body: "fst ?body = Rejected ?E"
    "executed (snd ?body) = [fullCommand config ?core] @ (map (fullCommand config) (theme_commands d)
       @ map (\<lambda>q. fullCommand config (plugin_command q True)) (earlier @ [p]))"
    unfolding tb
    by (simp_all only: and_then_ok [OF core(1)] r2 core(2))
  note dep = deploySite_Rejected [OF body(1)]
  show ?thesis
  proof (intro conjI)
    show "fst (deploySite config remote siteId d) = Rejected ?E"
      by (simp add: dep)
    show "terminal_status siteId (snd (deploySite config remote siteId d)) = Some FAILED"
      unfolding dep snd_conv
      using terminal_status_append_DbUpdate [of siteId
          "([Log INFO (''Starting deployment for site '' @ siteId) None,
             Emit ''init'' ''Initializing deployment...''] @ snd ?body)
           @ [Log ERROR (''Deployment failed for site '' @ siteId) (Some ?E),
              Emit ''failed'' (message ?E)]" FAILED]
      by simp
    show "Log ERROR (''Deployment failed for site '' @ siteId) (Some ?E)
           \<in> set (snd (deploySite config remote siteId d))"
      by (simp add: dep)
    show "executed (snd (deploySite config remote siteId d)) = map (fullCommand config)
             (?core # theme_commands d @ map (\<lambda>q. plugin_command q True) (earlier @ [p]))"
      by (simp add: dep executed_append body(2) comp_def)
  qed
qed

lemma one_plugin_fails_others:
  "\<forall>c. c \<noteq> fullCommand sample_config (plugin_command ''hello-dolly'' True)
        \<longrightarrow> exits_with (one_plugin_fails c) 0"
  by (simp add: one_plugin_fails_def exits_with_def)

theorem one_failed_plugin_fails_deployment_witness:
  "plugins sample_data = Some ([''wordpress-seo''] @ ''hello-dolly'' # [''contact-form-7''])
   \<and> ''hello-dolly'' \<notin> set [''wordpress-seo'']
   \<and> exits_with (one_plugin_fails (fullCommand sample_config
        (plugin_command ''wordpress-seo'' True))) 0
   \<and> fst (deploySite sample_config one_plugin_fails ''site-1'' sample_data) =
        Rejected (SSHError ''Command failed with code 1: Error: plugin not found.''
                    (Some ''wp plugin install hello-dolly --activate''))
   \<and> terminal_status ''site-1'' (snd (deploySite sample_config one_plugin_fails ''site-1'' sample_data))
       = Some FAILED"
proof -
  have h1: "plugins sample_data = Some ([''wordpress-seo''] @ ''hello-dolly'' # [''contact-form-7''])"
    by (simp add: sample_data_def)
  have h2: "''hello-dolly'' \<notin> set [''wordpress-seo'']"
    by simp
  have h5: "\<forall>ev \<in> set [StderrData ''Error: plugin not found.'']. \<not> is_Close ev"
    by simp
  have h6: "(1::int) \<noteq> 0"
    by simp
  note t = one_failed_plugin_fails_deployment [where remote = one_plugin_fails
      and siteId = "''site-1''", OF h1 h2 one_plugin_fails_others one_plugin_fails_stream h5 h6]
  from t have "fst (deploySite sample_config one_plugin_fails ''site-1'' sample_data) =
        Rejected (SSHError ''Command failed with code 1: Error: plugin not found.''
                    (Some ''wp plugin install hello-dolly --activate''))"
    by (simp add: decimal_digits_1 plugin_command_def)
  moreover from t have "terminal_status ''site-1''
      (snd (deploySite sample_config one_plugin_fails ''site-1'' sample_data)) = Some FAILED"
    by (rule conjunct2 [THEN conjunct1])
  moreover have "exits_with (one_plugin_fails (fullCommand sample_config
        (plugin_command ''wordpress-seo'' True))) 0"
    using one_plugin_fails_others by (simp add: fullCommand_inject plugin_command_inject)
  ultimately show ?thesis using h1 by simp
qed

text \<open>
  Claim C4 as stated says that a deployment in which one optional plugin fails and everything
  else succeeds ends \<open>Deployed\<close>. On the sample deployment the core install, the theme install
  and the installs of the two other plugins exit with 0 and the install of one plugin exits
  with 1: the run rejects and the terminal status is \<open>FAILED\<close>, not \<open>DEPLOYED\<close>.
\<close>

theorem optional_plugin_failure_counterexample:
  "exits_with (one_plugin_fails (fullCommand sample_config
       (core_command ''https://example.test'' ''Corner Pizza'' ''admin'' ''pw''
          ''owner@example.test''))) 0
   \<and> exits_with (one_plugin_fails (fullCommand sample_config (theme_command ''astra'' True))) 0
   \<and> exits_with (one_plugin_fails (fullCommand sample_config
        (plugin_command ''wordpress-seo'' True))) 0
   \<and> exits_with (one_plugin_fails (fullCommand sample_config
        (plugin_command ''contact-form-7'' True))) 0
   \<and> exits_with (one_plugin_fails (fullCommand sample_config
        (plugin_command ''hello-dolly'' True))) 1
   \<and> terminal_status ''site-1'' (snd (deploySite sample_config one_plugin_fails ''site-1'' sample_data))
       = Some FAILED
   \<and> terminal_status ''site-1'' (snd (deploySite sample_config one_plugin_fails ''site-1'' sample_data))
       \<noteq> Some DEPLOYED
   \<and> fst (deploySite sample_config one_plugin_fails ''site-1'' sample_data) =
        Rejected (SSHError ''Command failed with code 1: Error: plugin not found.''
                    (Some ''wp plugin install hello-dolly --activate''))"
  by code_simp

end
